theory Spec2Isabelle
  imports Main "HOL-Library.Word"
begin

unbundle bit_operations_syntax

section \<open>The byte source and the library primitives\<close>

text \<open>
  The decoders of \<^verbatim>\<open>main.go\<close> pull bytes from an \<^verbatim>\<open>io.ByteReader\<close> that they also use
  as an \<^verbatim>\<open>io.Reader\<close>. The source is modelled as the list of bytes that have not been
  read yet (an in-memory source such as \<^verbatim>\<open>bytes.Reader\<close>); every function takes the
  source and returns it advanced. The only failure of such a source is exhaustion.
\<close>

type_synonym byte = "8 word"
type_synonym uint64 = "64 word"
type_synonym reader = "byte list"

text \<open>A Go string is an immutable sequence of bytes; \<^verbatim>\<open>string(buf)\<close> keeps every byte.\<close>

type_synonym gostring = "byte list"

text \<open>
  The error values that can reach a caller: \<^verbatim>\<open>io.EOF\<close>, \<^verbatim>\<open>io.ErrUnexpectedEOF\<close>, the
  overflow error of \<^verbatim>\<open>encoding/binary\<close>, and \<^verbatim>\<open>errors.New("invalid heapdump")\<close>.
\<close>

datatype error = EOF | ErrUnexpectedEOF | errOverflow | ErrInvalidHeapdump

text \<open>
  A Go function of result type \<^verbatim>\<open>(T, error)\<close> either returns a pair, whose second
  component is \<^verbatim>\<open>nil\<close> (\<open>None\<close>) or an error, or it panics.
\<close>

datatype 'a result = Panic | Return 'a "error option"

text \<open>\<^verbatim>\<open>ReadByte\<close> of the source: the next byte, or \<^verbatim>\<open>io.EOF\<close>.\<close>

fun ReadByte :: "reader \<Rightarrow> (error + byte) \<times> reader" where
  "ReadByte [] = (Inl EOF, [])"
| "ReadByte (b # r) = (Inr b, r)"

definition MaxVarintLen64 :: nat where
  "MaxVarintLen64 = 10"

text \<open>
  \<^verbatim>\<open>binary.ReadUvarint\<close> of the Go standard library:
  \<^verbatim>\<open>
  var x uint64; var s uint
  for i := 0; i < MaxVarintLen64; i++ {
      b, err := r.ReadByte()
      if err != nil {
          if i > 0 && err == io.EOF { err = io.ErrUnexpectedEOF }
          return x, err
      }
      if b < 0x80 {
          if i == MaxVarintLen64-1 && b > 1 { return x, errOverflow }
          return x | uint64(b)<<s, nil
      }
      x |= uint64(b&0x7f) << s
      s += 7
  }
  return x, errOverflow
  \<close>
  The loop variables \<open>i\<close>, \<open>s\<close> and \<open>x\<close> are the arguments of the recursion.
\<close>

function ReadUvarint_loop ::
  "nat \<Rightarrow> nat \<Rightarrow> uint64 \<Rightarrow> reader \<Rightarrow> (uint64 \<times> error option) \<times> reader" where
  "ReadUvarint_loop i s x r =
     (if i < MaxVarintLen64 then
        (case ReadByte r of
           (Inl err, r') \<Rightarrow>
             ((x, Some (if 0 < i \<and> err = EOF then ErrUnexpectedEOF else err)), r')
         | (Inr b, r') \<Rightarrow>
             if b < 0x80 then
               (if i = MaxVarintLen64 - 1 \<and> 1 < b then ((x, Some errOverflow), r')
                else ((x OR push_bit s (ucast b), None), r'))
             else ReadUvarint_loop (i + 1) (s + 7) (x OR push_bit s (ucast (b AND 0x7f))) r')
      else ((x, Some errOverflow), r))"
  by pat_completeness auto
termination
  by (relation "measure (\<lambda>(i, s, x, r). MaxVarintLen64 - i)") auto

definition ReadUvarint :: "reader \<Rightarrow> (uint64 \<times> error option) \<times> reader" where
  "ReadUvarint r = ReadUvarint_loop 0 0 0 r"

text \<open>
  \<^verbatim>\<open>io.ReadFull(r, buf)\<close> with \<^verbatim>\<open>len(buf) = n\<close>: fills the buffer, or fails with
  \<^verbatim>\<open>io.EOF\<close> when no byte could be read and with \<^verbatim>\<open>io.ErrUnexpectedEOF\<close> when the
  source ends after some but not all bytes. The buffer was zeroed by \<^verbatim>\<open>make\<close>, so its
  unfilled tail is zero. A buffer of length 0 is filled without reading.
\<close>

definition ReadFull :: "reader \<Rightarrow> nat \<Rightarrow> (byte list \<times> error option) \<times> reader" where
  "ReadFull r n =
     (if n \<le> length r then ((take n r, None), drop n r)
      else if r = [] then ((replicate n 0, Some EOF), [])
      else ((r @ replicate (n - length r) 0, Some ErrUnexpectedEOF), []))"

text \<open>
  \<^verbatim>\<open>bytes.Compare(a, b)\<close>: the lexicographic comparison of two byte slices, \<open>0\<close> when
  equal, \<open>-1\<close> when \<open>a < b\<close>, \<open>1\<close> when \<open>a > b\<close>.
\<close>

fun bytes_Compare :: "byte list \<Rightarrow> byte list \<Rightarrow> int" where
  "bytes_Compare [] [] = 0"
| "bytes_Compare [] (b # bs) = - 1"
| "bytes_Compare (a # as) [] = 1"
| "bytes_Compare (a # as) (b # bs) =
     (if a < b then - 1 else if b < a then 1 else bytes_Compare as bs)"

text \<open>
  \<^verbatim>\<open>make([]byte, n)\<close> with \<open>n\<close> of type \<^verbatim>\<open>uint64\<close> panics (\<^verbatim>\<open>makeslice: len out of range\<close>)
  when the length exceeds what the runtime can allocate. The bound below is the
  one of the 64-bit targets (\<^verbatim>\<open>maxAlloc\<close>, 48 address bits); an allocation within the
  bound is taken to succeed.
\<close>

definition maxAlloc :: nat where
  "maxAlloc = 2 ^ 48"

section \<open>The header\<close>

text \<open>\<^verbatim>\<open>var header = []byte("go1.4 heap dump\n")\<close>, as its 16 bytes.\<close>

definition header :: "byte list" where
  "header = [0x67, 0x6f, 0x31, 0x2e, 0x34, 0x20, 0x68, 0x65,
             0x61, 0x70, 0x20, 0x64, 0x75, 0x6d, 0x70, 0x0a]"

text \<open>
  \<^verbatim>\<open>
  func readHeader(r io.ByteReader) error {
      head := make([]byte, len(header))
      if _, err := io.ReadFull(io.Reader(r), head); err != nil { return nil }
      if bytes.Compare(header, head) != 0 { return errors.New("invalid heapdump") }
      return nil
  }
  \<close>
\<close>

definition readHeader :: "reader \<Rightarrow> error option \<times> reader" where
  "readHeader r =
     (case ReadFull r (length header) of
        ((head, Some err), r') \<Rightarrow> (None, r')
      | ((head, None), r') \<Rightarrow>
          if bytes_Compare header head \<noteq> 0 then (Some ErrInvalidHeapdump, r')
          else (None, r'))"

section \<open>Strings and field lists\<close>

text \<open>
  \<^verbatim>\<open>
  func readString(r io.ByteReader) (string, error) {
      nbytes, err := binary.ReadUvarint(r)
      if err != nil { return "", err }
      buf := make([]byte, nbytes)
      _, err = io.ReadFull(io.Reader(r), buf)
      if err != nil { return "", err }
      return string(buf), nil
  }
  \<close>
\<close>

definition readString :: "reader \<Rightarrow> gostring result \<times> reader" where
  "readString r =
     (case ReadUvarint r of
        ((nbytes, Some err), r1) \<Rightarrow> (Return [] (Some err), r1)
      | ((nbytes, None), r1) \<Rightarrow>
          if maxAlloc < unat nbytes then (Panic, r1)
          else
            (case ReadFull r1 (unat nbytes) of
               ((buf, Some err), r2) \<Rightarrow> (Return [] (Some err), r2)
             | ((buf, None), r2) \<Rightarrow> (Return buf None, r2)))"

text \<open>
  \<^verbatim>\<open>type fieldKind int\<close> and \<^verbatim>\<open>type field struct { kind fieldKind; ptr uint64 }\<close>.
  Go's \<^verbatim>\<open>int\<close> has 64 bits on the targets whose dumps carry 64-bit addresses; the
  conversion \<^verbatim>\<open>fieldKind(t)\<close> of a \<^verbatim>\<open>uint64\<close> keeps all 64 bits, read as two's
  complement.
\<close>

type_synonym fieldKind = "64 word"

definition fieldKindEol :: fieldKind where
  "fieldKindEol = 0"

record field =
  kind :: fieldKind
  ptr :: uint64

text \<open>
  \<^verbatim>\<open>
  func readFieldlist(r io.ByteReader) ([]field, error) {
      fields := make([]field, 0)
      for {
          t, err := binary.ReadUvarint(r)
          if err != nil { return nil, err }
          if fieldKind(t) == fieldKindEol { return fields, nil }
          v, err := binary.ReadUvarint(r)
          if err != nil { return nil, err }
          fields = append(fields, field{fieldKind(t), v})
      }
  }
  \<close>
  The loop is the recursion \<open>readFieldlist_loop\<close> over the slice built so far
  (\<open>fields'\<close>) and the source; the \<^verbatim>\<open>nil\<close> slice of the error returns is \<open>None\<close>.
\<close>

function readFieldlist_loop :: "field list \<Rightarrow> reader \<Rightarrow> field list option result \<times> reader" where
  "readFieldlist_loop fields' r =
     (case ReadUvarint r of
        ((t, Some err), r1) \<Rightarrow> (Return None (Some err), r1)
      | ((t, None), r1) \<Rightarrow>
          if t = fieldKindEol then (Return (Some fields') None, r1)
          else
            (case ReadUvarint r1 of
               ((v, Some err), r2) \<Rightarrow> (Return None (Some err), r2)
             | ((v, None), r2) \<Rightarrow>
                 readFieldlist_loop (fields' @ [\<lparr>kind = t, ptr = v\<rparr>]) r2))"
  by pat_completeness auto

text \<open>A successful \<open>ReadUvarint\<close> has consumed at least one byte, so the loop ends.\<close>

lemma ReadUvarint_loop_consumes:
  "ReadUvarint_loop i s x r = ((y, None), r') \<Longrightarrow> length r' < length r"
proof (induction i s x r rule: ReadUvarint_loop.induct)
  case (1 i s x r)
  show ?case
  proof (cases r)
    case Nil
    with "1.prems" show ?thesis
      by (subst (asm) ReadUvarint_loop.simps) (simp split: if_splits)
  next
    case (Cons b r0)
    show ?thesis
    proof (cases "i < MaxVarintLen64 \<and> \<not> b < 0x80")
      case True
      with "1.prems" Cons
      have "ReadUvarint_loop (i + 1) (s + 7) (x OR push_bit s (ucast (b AND 0x7f))) r0
            = ((y, None), r')"
        by (subst (asm) ReadUvarint_loop.simps) simp
      with "1.IH" True Cons have "length r' < length r0"
        by simp
      with Cons show ?thesis by simp
    next
      case False
      with "1.prems" Cons show ?thesis
        by (subst (asm) ReadUvarint_loop.simps) (auto split: if_splits)
    qed
  qed
qed

lemma ReadUvarint_consumes:
  "ReadUvarint r = ((y, None), r') \<Longrightarrow> length r' < length r"
  unfolding ReadUvarint_def by (rule ReadUvarint_loop_consumes)

termination readFieldlist_loop
proof (relation "measure (\<lambda>(fs, r). length r)")
  show "wf (measure (\<lambda>(fs, r). length r))" by simp
next
  fix fs :: "field list" and r :: reader and x r1 t e2 xa r2 v e3
  assume "(x, r1) = ReadUvarint r" "(t, e2) = x" "e2 = None" "t \<noteq> fieldKindEol"
    "(xa, r2) = ReadUvarint r1" "(v, e3) = xa" "e3 = None"
  then have "ReadUvarint r = ((t, None), r1)" "ReadUvarint r1 = ((v, None), r2)"
    by simp_all
  then have "length r1 < length r" "length r2 < length r1"
    by (simp_all add: ReadUvarint_consumes)
  then have "length r2 < length r" by simp
  then show "((fs @ [\<lparr>kind = t, ptr = v\<rparr>], r2), fs, r) \<in> measure (\<lambda>(fs, r). length r)"
    by simp
qed

definition readFieldlist :: "reader \<Rightarrow> field list option result \<times> reader" where
  "readFieldlist r = readFieldlist_loop [] r"

section \<open>The record decoders\<close>

text \<open>
  Every decoder returns a pointer and an error: \<^verbatim>\<open>nil\<close> is \<open>None\<close>. Each
  \<^verbatim>\<open>if err != nil { return nil, err }\<close> of the source is the error branch of a
  \<^theory_text>\<open>case\<close>; a panic of a callee unwinds through the caller.
\<close>

text \<open>The elements of a slice; a \<^verbatim>\<open>nil\<close> slice has none.\<close>

definition elems :: "'a list option \<Rightarrow> 'a list" where
  "elems sl = (case sl of None \<Rightarrow> [] | Some xs \<Rightarrow> xs)"

text \<open>
  \<^verbatim>\<open>type object struct { addr uint64; contents string; fields []field }\<close>
  (the field \<^verbatim>\<open>fields\<close> is \<open>fields'\<close> here).
\<close>

record object =
  addr :: uint64
  contents :: gostring
  fields' :: "field list"

text \<open>
  \<^verbatim>\<open>
  func readObject(r io.ByteReader) (*object, error) {
      addr, err := binary.ReadUvarint(r)
      if err != nil { return nil, err }
      contents, err := readString(r)
      if err != nil { return nil, err }
      fields, err := readFieldlist(r)
      if err != nil { return nil, err }
      return &object{addr, contents, fields}, nil
  }
  \<close>
\<close>

definition readObject :: "reader \<Rightarrow> object option result \<times> reader" where
  "readObject r =
     (case ReadUvarint r of
        ((a, Some err), r1) \<Rightarrow> (Return None (Some err), r1)
      | ((a, None), r1) \<Rightarrow>
          (case readString r1 of
             (Panic, r2) \<Rightarrow> (Panic, r2)
           | (Return c (Some err), r2) \<Rightarrow> (Return None (Some err), r2)
           | (Return c None, r2) \<Rightarrow>
               (case readFieldlist r2 of
                  (Panic, r3) \<Rightarrow> (Panic, r3)
                | (Return fl (Some err), r3) \<Rightarrow> (Return None (Some err), r3)
                | (Return fl None, r3) \<Rightarrow>
                    (Return (Some \<lparr>object.addr = a, object.contents = c,
                                   object.fields' = elems fl\<rparr>) None, r3))))"

text \<open>\<^verbatim>\<open>type root struct { descr string; ptr uint64 }\<close>\<close>

record root =
  descr :: gostring
  ptr :: uint64

text \<open>
  \<^verbatim>\<open>
  func readOtherRoot(r io.ByteReader) (*root, error) {
      descr, err := readString(r)
      if err != nil { return nil, err }
      ptr, err := binary.ReadUvarint(r)
      if err != nil { return nil, err }
      return &root{descr, ptr}, nil
  }
  \<close>
\<close>

definition readOtherRoot :: "reader \<Rightarrow> root option result \<times> reader" where
  "readOtherRoot r =
     (case readString r of
        (Panic, r1) \<Rightarrow> (Panic, r1)
      | (Return d (Some err), r1) \<Rightarrow> (Return None (Some err), r1)
      | (Return d None, r1) \<Rightarrow>
          (case ReadUvarint r1 of
             ((p, Some err), r2) \<Rightarrow> (Return None (Some err), r2)
           | ((p, None), r2) \<Rightarrow>
               (Return (Some \<lparr>root.descr = d, root.ptr = p\<rparr>) None, r2)))"

text \<open>
  \<^verbatim>\<open>type Type struct { addr uint64; size uint64; name string; isPtr bool }\<close>
  (the field \<^verbatim>\<open>size\<close> is \<open>size'\<close> here).
\<close>

record Type =
  addr :: uint64
  size' :: uint64
  name :: gostring
  isPtr :: bool

text \<open>
  \<^verbatim>\<open>
  func readType(r io.ByteReader) (*Type, error) {
      addr, err := binary.ReadUvarint(r)
      if err != nil { return nil, err }
      size, err := binary.ReadUvarint(r)
      if err != nil { return nil, err }
      name, err := readString(r)
      if err != nil { return nil, err }
      isptr, err := binary.ReadUvarint(r)
      if err != nil { return nil, err }
      return &Type{addr, size, name, isptr != 0}, nil
  }
  \<close>
\<close>

definition readType :: "reader \<Rightarrow> Type option result \<times> reader" where
  "readType r =
     (case ReadUvarint r of
        ((a, Some err), r1) \<Rightarrow> (Return None (Some err), r1)
      | ((a, None), r1) \<Rightarrow>
          (case ReadUvarint r1 of
             ((sz, Some err), r2) \<Rightarrow> (Return None (Some err), r2)
           | ((sz, None), r2) \<Rightarrow>
               (case readString r2 of
                  (Panic, r3) \<Rightarrow> (Panic, r3)
                | (Return n (Some err), r3) \<Rightarrow> (Return None (Some err), r3)
                | (Return n None, r3) \<Rightarrow>
                    (case ReadUvarint r3 of
                       ((isptr, Some err), r4) \<Rightarrow> (Return None (Some err), r4)
                     | ((isptr, None), r4) \<Rightarrow>
                         (Return (Some \<lparr>Type.addr = a, Type.size' = sz, Type.name = n,
                                        Type.isPtr = (isptr \<noteq> 0)\<rparr>) None, r4)))))"

text \<open>
  \<^verbatim>\<open>time.Time\<close>, as the seconds since the Unix epoch and the nanoseconds within the
  second. The zero \<^verbatim>\<open>Time\<close> is January 1 of year 1.
\<close>

record Time =
  sec :: int
  nsec :: int

definition Time_zero :: Time where
  "Time_zero = \<lparr>sec = - 62135596800, nsec = 0\<rparr>"

text \<open>Go's integer division truncates towards zero.\<close>

definition quo :: "int \<Rightarrow> int \<Rightarrow> int" where
  "quo a b = sgn a * sgn b * (\<bar>a\<bar> div \<bar>b\<bar>)"

text \<open>
  \<^verbatim>\<open>time.Unix(sec, nsec)\<close> of the standard library; \<open>nsec\<close> outside \<open>[0, 1e9)\<close> is
  carried into the seconds:
  \<^verbatim>\<open>
  if nsec < 0 || nsec >= 1e9 {
      n := nsec / 1e9
      sec += n
      nsec -= n * 1e9
      if nsec < 0 { nsec += 1e9; sec-- }
  }
  return unixTime(sec, int32(nsec))
  \<close>
\<close>

definition time_Unix :: "int \<Rightarrow> int \<Rightarrow> Time" where
  "time_Unix s ns =
     (if ns < 0 \<or> 1000000000 \<le> ns then
        (let n = quo ns 1000000000;
             s1 = s + n;
             ns1 = ns - n * 1000000000
         in if ns1 < 0 then \<lparr>sec = s1 - 1, nsec = ns1 + 1000000000\<rparr>
            else \<lparr>sec = s1, nsec = ns1\<rparr>)
      else \<lparr>sec = s, nsec = ns\<rparr>)"

text \<open>
  \<^verbatim>\<open>time.Second\<close> is a constant of type \<^verbatim>\<open>time.Duration\<close>, an \<^verbatim>\<open>int64\<close>: the number of
  nanoseconds of a second. An \<^verbatim>\<open>int64\<close> is 64 bits read as two's complement (\<open>sint\<close>).
\<close>

type_synonym int64 = "64 word"

definition Second :: int64 where
  "Second = 1000000000"

text \<open>The remainder \<^verbatim>\<open>a % b\<close> of Go on signed integers has the sign of \<open>a\<close>.\<close>

definition rem :: "int \<Rightarrow> int \<Rightarrow> int" where
  "rem a b = a - b * quo a b"

text \<open>
  Line 222 of \<^verbatim>\<open>main.go\<close>,
  \<^verbatim>\<open>g.started = time.Unix(started/time.Second, started%time.Second)\<close>,
  is not well typed: \<^verbatim>\<open>started\<close> is a \<^verbatim>\<open>uint64\<close>, \<^verbatim>\<open>time.Second\<close> is a \<^verbatim>\<open>time.Duration\<close>
  and \<^verbatim>\<open>time.Unix\<close> takes two \<^verbatim>\<open>int64\<close>. The source does not say where the conversion
  belongs, and the two places give different results, so the place is a parameter:
  \<^item> \<open>DivUint64\<close>: the constant is converted, the operations are those of \<^verbatim>\<open>uint64\<close>
    and their results are converted to \<^verbatim>\<open>int64\<close>:
    \<^verbatim>\<open>time.Unix(int64(started/uint64(time.Second)), int64(started%uint64(time.Second)))\<close>;
  \<^item> \<open>DivDuration\<close>: \<^verbatim>\<open>started\<close> is converted, the operations are those of the signed
    \<^verbatim>\<open>time.Duration\<close>:
    \<^verbatim>\<open>time.Unix(int64(time.Duration(started)/time.Second), int64(time.Duration(started)%time.Second))\<close>.
  \<open>started_div\<close> and \<open>started_mod\<close> are the two arguments of \<^verbatim>\<open>time.Unix\<close>.
\<close>

datatype typing = DivUint64 | DivDuration

definition started_div :: "typing \<Rightarrow> uint64 \<Rightarrow> int" where
  "started_div ty n =
     (case ty of
        DivUint64 \<Rightarrow> sint (n div Second)
      | DivDuration \<Rightarrow> quo (sint n) (sint Second))"

definition started_mod :: "typing \<Rightarrow> uint64 \<Rightarrow> int" where
  "started_mod ty n =
     (case ty of
        DivUint64 \<Rightarrow> sint (n mod Second)
      | DivDuration \<Rightarrow> rem (sint n) (sint Second))"

text \<open>
  \<^verbatim>\<open>type status int\<close>: as for \<open>fieldKind\<close>, the conversion \<^verbatim>\<open>status(st)\<close> keeps the 64
  bits of the \<^verbatim>\<open>uint64\<close>.
\<close>

type_synonym status = "64 word"

text \<open>
  \<^verbatim>\<open>
  type Goroutine struct {
      addr, rframe, id, stmt uint64
      status status
      isSys, isBackground bool
      started time.Time
      waitReason string
      ctx, MThread, dfer, pnic uint64
  }
  \<close>
  (the field \<^verbatim>\<open>id\<close> is \<open>id'\<close> here).
\<close>

record Goroutine =
  addr :: uint64
  rframe :: uint64
  id' :: uint64
  stmt :: uint64
  status :: status
  isSys :: bool
  isBackground :: bool
  started :: Time
  waitReason :: gostring
  ctx :: uint64
  MThread :: uint64
  dfer :: uint64
  pnic :: uint64

text \<open>The zero value \<^verbatim>\<open>Goroutine{}\<close>.\<close>

definition Goroutine_zero :: Goroutine where
  "Goroutine_zero =
     \<lparr>Goroutine.addr = 0, rframe = 0, id' = 0, stmt = 0, status = 0, isSys = False,
      isBackground = False, started = Time_zero, waitReason = [], ctx = 0, MThread = 0,
      dfer = 0, pnic = 0\<rparr>"

text \<open>
  \<^verbatim>\<open>
  func readGoroutine(r io.ByteReader) (*Goroutine, error) {
      var err error
      g := &Goroutine{}
      g.addr, err = binary.ReadUvarint(r)
      if err != nil { return nil, err }
      g.rframe, err = binary.ReadUvarint(r)
      if err != nil { return nil, err }
      g.id, err = binary.ReadUvarint(r)
      if err != nil { return nil, err }
      g.stmt, err = binary.ReadUvarint(r)
      if err != nil { return nil, err }
      st, err := binary.ReadUvarint(r)
      if err != nil { return nil, err }
      g.status = status(st)
      b, err := binary.ReadUvarint(r)
      if err != nil { return nil, err }
      g.isSys = b != 1
      b, err = binary.ReadUvarint(r)
      if err != nil { return nil, err }
      g.isBackground = b != 1
      started, err := binary.ReadUvarint(r)
      if err != nil { return nil, err }
      g.started = time.Unix(started/time.Second, started%time.Second)
      g.waitReason, err = readString(r)
      if err != nil { return nil, err }
      g.ctx, err = binary.ReadUvarint(r)
      if err != nil { return nil, err }
      g.MThread, err = binary.ReadUvarint(r)
      if err != nil { return nil, err }
      g.dfer, err = binary.ReadUvarint(r)
      if err != nil { return nil, err }
      g.pnic, err = binary.ReadUvarint(r)
      if err != nil { return nil, err }
      return g, nil
  }
  \<close>
  The record \<open>g\<close> is threaded through the reads (\<open>g0\<close>, \<open>g1\<close>, ...); the local
  \<^verbatim>\<open>started\<close> is \<open>started'\<close>. The parameter \<open>ty\<close> is the typing of the arguments of
  \<^verbatim>\<open>time.Unix\<close>; nothing else depends on it.
\<close>

definition readGoroutine :: "typing \<Rightarrow> reader \<Rightarrow> Goroutine option result \<times> reader" where
  "readGoroutine ty r =
     (let g0 = Goroutine_zero in
     (case ReadUvarint r of
        ((a, Some err), r1) \<Rightarrow> (Return None (Some err), r1)
      | ((a, None), r1) \<Rightarrow>
          let g1 = g0\<lparr>Goroutine.addr := a\<rparr> in
       (case ReadUvarint r1 of
          ((rf, Some err), r2) \<Rightarrow> (Return None (Some err), r2)
        | ((rf, None), r2) \<Rightarrow>
            let g2 = g1\<lparr>Goroutine.rframe := rf\<rparr> in
         (case ReadUvarint r2 of
            ((i, Some err), r3) \<Rightarrow> (Return None (Some err), r3)
          | ((i, None), r3) \<Rightarrow>
              let g3 = g2\<lparr>Goroutine.id' := i\<rparr> in
           (case ReadUvarint r3 of
              ((sm, Some err), r4) \<Rightarrow> (Return None (Some err), r4)
            | ((sm, None), r4) \<Rightarrow>
                let g4 = g3\<lparr>Goroutine.stmt := sm\<rparr> in
             (case ReadUvarint r4 of
                ((st, Some err), r5) \<Rightarrow> (Return None (Some err), r5)
              | ((st, None), r5) \<Rightarrow>
                  let g5 = g4\<lparr>Goroutine.status := st\<rparr> in
               (case ReadUvarint r5 of
                  ((b, Some err), r6) \<Rightarrow> (Return None (Some err), r6)
                | ((b, None), r6) \<Rightarrow>
                    let g6 = g5\<lparr>Goroutine.isSys := b \<noteq> 1\<rparr> in
                 (case ReadUvarint r6 of
                    ((b, Some err), r7) \<Rightarrow> (Return None (Some err), r7)
                  | ((b, None), r7) \<Rightarrow>
                      let g7 = g6\<lparr>Goroutine.isBackground := b \<noteq> 1\<rparr> in
                   (case ReadUvarint r7 of
                      ((started', Some err), r8) \<Rightarrow> (Return None (Some err), r8)
                    | ((started', None), r8) \<Rightarrow>
                        let g8 = g7\<lparr>Goroutine.started :=
                                   time_Unix (started_div ty started')
                                             (started_mod ty started')\<rparr> in
                     (case readString r8 of
                        (Panic, r9) \<Rightarrow> (Panic, r9)
                      | (Return w (Some err), r9) \<Rightarrow> (Return None (Some err), r9)
                      | (Return w None, r9) \<Rightarrow>
                          let g9 = g8\<lparr>Goroutine.waitReason := w\<rparr> in
                       (case ReadUvarint r9 of
                          ((c, Some err), r10) \<Rightarrow> (Return None (Some err), r10)
                        | ((c, None), r10) \<Rightarrow>
                            let g10 = g9\<lparr>Goroutine.ctx := c\<rparr> in
                         (case ReadUvarint r10 of
                            ((m, Some err), r11) \<Rightarrow> (Return None (Some err), r11)
                          | ((m, None), r11) \<Rightarrow>
                              let g11 = g10\<lparr>Goroutine.MThread := m\<rparr> in
                           (case ReadUvarint r11 of
                              ((d, Some err), r12) \<Rightarrow> (Return None (Some err), r12)
                            | ((d, None), r12) \<Rightarrow>
                                let g12 = g11\<lparr>Goroutine.dfer := d\<rparr> in
                             (case ReadUvarint r12 of
                                ((p, Some err), r13) \<Rightarrow> (Return None (Some err), r13)
                              | ((p, None), r13) \<Rightarrow>
                                  let g13 = g12\<lparr>Goroutine.pnic := p\<rparr> in
                                  (Return (Some g13) None, r13)))))))))))))))"

text \<open>
  \<^verbatim>\<open>
  type stackFrame struct {
      ptr, depth, childPtr uint64
      content string
      startPC, currentPC, continuePC uint64
      name string
      fields []field
  }
  \<close>
  (the field \<^verbatim>\<open>fields\<close> is \<open>fields'\<close> here).
\<close>

record stackFrame =
  ptr :: uint64
  depth :: uint64
  childPtr :: uint64
  content :: gostring
  startPC :: uint64
  currentPC :: uint64
  continuePC :: uint64
  name :: gostring
  fields' :: "field list"

text \<open>The zero value \<^verbatim>\<open>stackFrame{}\<close>.\<close>

definition stackFrame_zero :: stackFrame where
  "stackFrame_zero =
     \<lparr>stackFrame.ptr = 0, depth = 0, childPtr = 0, content = [], startPC = 0,
      currentPC = 0, continuePC = 0, name = [], fields' = []\<rparr>"

text \<open>
  \<^verbatim>\<open>
  func readStackFrame(r io.ByteReader) (*stackFrame, error) {
      var err error
      s := &stackFrame{}
      s.ptr, err = binary.ReadUvarint(r)
      if err != nil { return nil, err }
      s.depth, err = binary.ReadUvarint(r)
      if err != nil { return nil, err }
      s.childPtr, err = binary.ReadUvarint(r)
      if err != nil { return nil, err }
      s.content, err = readString(r)
      if err != nil { return nil, err }
      s.startPC, err = binary.ReadUvarint(r)
      if err != nil { return nil, err }
      s.currentPC, err = binary.ReadUvarint(r)
      if err != nil { return nil, err }
      s.continuePC, err = binary.ReadUvarint(r)
      if err != nil { return nil, err }
      s.name, err = readString(r)
      if err != nil { return nil, err }
      s.fields, err = readFieldlist(r)
      if err != nil { return nil, err }
      return s, nil
  }
  \<close>
\<close>

definition readStackFrame :: "reader \<Rightarrow> stackFrame option result \<times> reader" where
  "readStackFrame r =
     (let s0 = stackFrame_zero in
     (case ReadUvarint r of
        ((p, Some err), r1) \<Rightarrow> (Return None (Some err), r1)
      | ((p, None), r1) \<Rightarrow>
          let s1 = s0\<lparr>stackFrame.ptr := p\<rparr> in
       (case ReadUvarint r1 of
          ((d, Some err), r2) \<Rightarrow> (Return None (Some err), r2)
        | ((d, None), r2) \<Rightarrow>
            let s2 = s1\<lparr>stackFrame.depth := d\<rparr> in
         (case ReadUvarint r2 of
            ((cp, Some err), r3) \<Rightarrow> (Return None (Some err), r3)
          | ((cp, None), r3) \<Rightarrow>
              let s3 = s2\<lparr>stackFrame.childPtr := cp\<rparr> in
           (case readString r3 of
              (Panic, r4) \<Rightarrow> (Panic, r4)
            | (Return c (Some err), r4) \<Rightarrow> (Return None (Some err), r4)
            | (Return c None, r4) \<Rightarrow>
                let s4 = s3\<lparr>stackFrame.content := c\<rparr> in
             (case ReadUvarint r4 of
                ((pc, Some err), r5) \<Rightarrow> (Return None (Some err), r5)
              | ((pc, None), r5) \<Rightarrow>
                  let s5 = s4\<lparr>stackFrame.startPC := pc\<rparr> in
               (case ReadUvarint r5 of
                  ((pc, Some err), r6) \<Rightarrow> (Return None (Some err), r6)
                | ((pc, None), r6) \<Rightarrow>
                    let s6 = s5\<lparr>stackFrame.currentPC := pc\<rparr> in
                 (case ReadUvarint r6 of
                    ((pc, Some err), r7) \<Rightarrow> (Return None (Some err), r7)
                  | ((pc, None), r7) \<Rightarrow>
                      let s7 = s6\<lparr>stackFrame.continuePC := pc\<rparr> in
                   (case readString r7 of
                      (Panic, r8) \<Rightarrow> (Panic, r8)
                    | (Return n (Some err), r8) \<Rightarrow> (Return None (Some err), r8)
                    | (Return n None, r8) \<Rightarrow>
                        let s8 = s7\<lparr>stackFrame.name := n\<rparr> in
                     (case readFieldlist r8 of
                        (Panic, r9) \<Rightarrow> (Panic, r9)
                      | (Return fl (Some err), r9) \<Rightarrow> (Return None (Some err), r9)
                      | (Return fl None, r9) \<Rightarrow>
                          let s9 = s8\<lparr>stackFrame.fields' := elems fl\<rparr> in
                          (Return (Some s9) None, r9)))))))))))"

section \<open>Writing the wire format\<close>

text \<open>
  The program only reads. To state round trips, the encoding is written as the format
  defines it. \<^verbatim>\<open>binary.PutUvarint\<close> of the standard library gives the bytes of a uvarint:
  \<^verbatim>\<open>
  i := 0
  for x >= 0x80 { buf[i] = byte(x) | 0x80; x >>= 7; i++ }
  buf[i] = byte(x)
  \<close>
\<close>

function PutUvarint :: "uint64 \<Rightarrow> byte list" where
  "PutUvarint x =
     (if 0x80 \<le> x then (ucast x OR 0x80) # PutUvarint (drop_bit 7 x) else [ucast x])"
  by pat_completeness auto
termination
proof (relation "measure unat")
  show "wf (measure unat)" by simp
next
  fix x :: uint64
  assume "0x80 \<le> x"
  then have "128 \<le> unat x" by (simp add: word_le_nat_alt)
  then have "unat x div 128 < unat x" by simp
  then show "(drop_bit 7 x, x) \<in> measure unat"
    by (simp add: unat_drop_bit_eq drop_bit_eq_div unat_div)
qed

text \<open>A length-prefixed payload: the length as a uvarint, then the bytes.\<close>

definition putString :: "gostring \<Rightarrow> byte list" where
  "putString b = PutUvarint (of_nat (length b)) @ b"

text \<open>A field list: kind and offset of each pair as two uvarints, then the End marker 0.\<close>

definition putField :: "field \<Rightarrow> byte list" where
  "putField f = PutUvarint (kind f) @ PutUvarint (field.ptr f)"

definition putFieldlist :: "field list \<Rightarrow> byte list" where
  "putFieldlist fs = concat (map putField fs) @ PutUvarint fieldKindEol"


text \<open>The bytes of the text \<^verbatim>\<open>runtime.m0\<close>.\<close>

definition runtime_m0 :: gostring where
  "runtime_m0 = [0x72, 0x75, 0x6e, 0x74, 0x69, 0x6d, 0x65, 0x2e, 0x6d, 0x30]"

section \<open>The raw values of a stream\<close>

text \<open>
  The raw value of the \<open>k\<close>-th uvarint of a stream (counted from 0): the value that the
  \<open>k\<close>-th of successive calls of \<open>ReadUvarint\<close> returns, if all calls up to it succeed.
\<close>

fun rawUvarint :: "nat \<Rightarrow> reader \<Rightarrow> uint64 option" where
  "rawUvarint k r =
     (case ReadUvarint r of
        ((x, Some err), r') \<Rightarrow> None
      | ((x, None), r') \<Rightarrow> (case k of 0 \<Rightarrow> Some x | Suc j \<Rightarrow> rawUvarint j r'))"

section \<open>The reads of a decoder, in order\<close>

text \<open>
  Each record decoder performs a fixed sequence of reads: a uvarint, a length-prefixed
  string or a field list. \<open>firstError\<close> runs such a sequence on a source and gives the
  error of the first read that fails, with the source as that read left it; it gives
  \<open>None\<close> when no read fails.
\<close>

datatype prim = PUvarint | PString | PFieldlist

fun runPrim :: "prim \<Rightarrow> reader \<Rightarrow> unit result \<times> reader" where
  "runPrim PUvarint r = (case ReadUvarint r of ((x, e), r') \<Rightarrow> (Return () e, r'))"
| "runPrim PString r =
     (case readString r of (Panic, r') \<Rightarrow> (Panic, r') | (Return s e, r') \<Rightarrow> (Return () e, r'))"
| "runPrim PFieldlist r =
     (case readFieldlist r of (Panic, r') \<Rightarrow> (Panic, r') | (Return fl e, r') \<Rightarrow> (Return () e, r'))"

fun firstError :: "prim list \<Rightarrow> reader \<Rightarrow> (error \<times> reader) option" where
  "firstError [] r = None"
| "firstError (p # ps) r =
     (case runPrim p r of
        (Panic, r') \<Rightarrow> None
      | (Return u (Some e), r') \<Rightarrow> Some (e, r')
      | (Return u None, r') \<Rightarrow> firstError ps r')"

text \<open>The reads of the five record decoders.\<close>

definition reads_object :: "prim list" where
  "reads_object = [PUvarint, PString, PFieldlist]"

definition reads_root :: "prim list" where
  "reads_root = [PString, PUvarint]"

definition reads_Type :: "prim list" where
  "reads_Type = [PUvarint, PUvarint, PString, PUvarint]"

definition reads_Goroutine :: "prim list" where
  "reads_Goroutine = [PUvarint, PUvarint, PUvarint, PUvarint, PUvarint, PUvarint, PUvarint,
     PUvarint, PString, PUvarint, PUvarint, PUvarint, PUvarint]"

definition reads_stackFrame :: "prim list" where
  "reads_stackFrame = [PUvarint, PUvarint, PUvarint, PString, PUvarint, PUvarint, PUvarint,
     PString, PFieldlist]"

section \<open>Facts about the primitives\<close>

declare PutUvarint.simps [simp del]
declare ReadUvarint_loop.simps [simp del]
declare readFieldlist_loop.simps [simp del]

lemma bit_0x7f: "bit (0x7f::'a::ring_bit_operations) n \<longleftrightarrow> possible_bit TYPE('a) n \<and> n < 7"
proof -
  have "(0x7f::'a) = mask 7" by (simp add: mask_eq_exp_minus_1)
  then show ?thesis by (simp only: bit_mask_iff)
qed

lemma bit_0x80: "bit (0x80::'a::ring_bit_operations) n \<longleftrightarrow> possible_bit TYPE('a) n \<and> n = 7"
proof -
  have "(0x80::'a) = 2 ^ 7" by simp
  then show ?thesis by (simp only: bit_exp_iff)
qed

lemma low7: "ucast ((ucast (x::uint64) OR (0x80::byte)) AND 0x7f) = take_bit 7 x"
  by (rule bit_word_eqI) (auto simp: bit_simps bit_0x7f bit_0x80)

lemma continuation_bit: "\<not> (ucast (x::uint64) OR (0x80::byte)) < 0x80"
proof -
  have "(0x80::byte) \<le> ucast x OR 0x80" by (simp add: le_word_or1)
  then show ?thesis by simp
qed

lemma unat_ucast_byte_le: "unat (ucast (x::uint64) :: byte) \<le> unat x"
  by (simp add: unsigned_ucast_eq unsigned_take_bit_eq)

lemma small_ucast: "(x::uint64) < 0x80 \<Longrightarrow> ucast (ucast x :: byte) = x"
proof -
  assume "x < 0x80"
  then have "unat x < 2 ^ 7" by (simp add: word_less_nat_alt)
  then have "take_bit 8 (unat x) = unat x" by (simp add: take_bit_nat_eq_self_iff)
  then have "take_bit 8 x = x"
    by (metis unsigned_take_bit_eq word_unat_eq_iff)
  then show ?thesis by (simp add: unsigned_ucast_eq)
qed

lemma small_lt: "(x::uint64) < 0x80 \<Longrightarrow> (ucast x :: byte) < 0x80"
  using unat_ucast_byte_le [of x] by (simp add: word_less_nat_alt)

lemma recombine:
  "push_bit s (take_bit 7 x) OR push_bit (s + 7) (drop_bit 7 x) = push_bit s (x::uint64)"
proof (rule bit_word_eqI)
  fix n assume "n < LENGTH(64)"
  show "bit (push_bit s (take_bit 7 x) OR push_bit (s + 7) (drop_bit 7 x)) n
        = bit (push_bit s x) n"
  proof (cases "n - s < 7")
    case True then show ?thesis by (auto simp: bit_simps)
  next
    case False
    then have "7 + (n - (s + 7)) = n - s" by simp
    with False show ?thesis by (auto simp: bit_simps)
  qed
qed

lemma ReadUvarint_loop_PutUvarint:
  "s = 7 * i \<Longrightarrow> i < 10 \<Longrightarrow> unat x < 2 ^ (64 - s) \<Longrightarrow>
   ReadUvarint_loop i s acc (PutUvarint x @ S) = ((acc OR push_bit s x, None), S)"
proof (induction x arbitrary: i s acc rule: PutUvarint.induct)
  case (1 x)
  show ?case
  proof (cases "0x80 \<le> x")
    case True
    then have "2 ^ 7 \<le> unat x" by (simp add: word_le_nat_alt)
    with "1.prems" have "(2::nat) ^ 7 < 2 ^ (64 - s)" by linarith
    then have "7 < 64 - s" by (simp only: power_strict_increasing_iff)
    with "1.prems" have i: "i < 9" by simp
    have e: "64 - s = (64 - (s + 7)) + 7"
      using \<open>7 < 64 - s\<close> by simp
    have "(2::nat) ^ (64 - s) = 2 ^ (64 - (s + 7)) * 2 ^ 7"
      by (subst e) (rule power_add)
    with "1.prems" have "unat x div 2 ^ 7 < 2 ^ (64 - (s + 7))"
      by (simp add: less_mult_imp_div_less)
    then have small: "unat (drop_bit 7 x) < 2 ^ (64 - (s + 7))"
      by (simp add: unat_drop_bit_eq drop_bit_eq_div unat_div)
    have s': "s + 7 = 7 * (i + 1)" using "1.prems" by simp
    have i': "i + 1 < 10" using i by simp
    have put: "PutUvarint x = (ucast x OR 0x80) # PutUvarint (drop_bit 7 x)"
      using True by (subst PutUvarint.simps) simp
    have "ReadUvarint_loop i s acc (PutUvarint x @ S) =
          ReadUvarint_loop (i + 1) (s + 7) (acc OR push_bit s (take_bit 7 x))
            (PutUvarint (drop_bit 7 x) @ S)"
      using "1.prems"(2)
      by (subst ReadUvarint_loop.simps) (simp add: put MaxVarintLen64_def continuation_bit low7)
    also have "\<dots> = ((acc OR push_bit s (take_bit 7 x) OR push_bit (s + 7) (drop_bit 7 x), None), S)"
      using "1.IH" [of "s + 7" "i + 1"] True s' i' small by (simp add: add.commute or.assoc)
    finally show ?thesis by (simp add: or.assoc recombine)
  next
    case False
    then have lt: "x < 0x80" by simp
    have put: "PutUvarint x = [ucast x]"
      using False by (subst PutUvarint.simps) simp
    have last: "\<not> (i = 9 \<and> 1 < (ucast x :: byte))"
    proof
      assume a: "i = 9 \<and> 1 < (ucast x :: byte)"
      with "1.prems" have "unat x < 2" by simp
      with unat_ucast_byte_le [of x] have "unat (ucast x :: byte) < 2" by simp
      with a show False by (simp add: word_less_nat_alt)
    qed
    show ?thesis
      using "1.prems"(2) last
      by (subst ReadUvarint_loop.simps)
         (simp add: put MaxVarintLen64_def small_lt [OF lt] small_ucast [OF lt])
  qed
qed

lemma ReadUvarint_PutUvarint [simp]: "ReadUvarint (PutUvarint x @ S) = ((x, None), S)"
proof -
  have "unat x < 2 ^ (64 - 0)" using unsigned_less [of x] by simp
  from ReadUvarint_loop_PutUvarint [OF _ _ this, of 0 0 S] show ?thesis
    by (simp add: ReadUvarint_def)
qed

lemma ReadUvarint_Nil: "ReadUvarint [] = ((0, Some EOF), [])"
  by (simp add: ReadUvarint_def MaxVarintLen64_def ReadUvarint_loop.simps)

lemma ReadUvarint_small: "b < 0x80 \<Longrightarrow> ReadUvarint (b # r) = ((ucast b, None), r)"
  by (simp add: ReadUvarint_def MaxVarintLen64_def ReadUvarint_loop.simps)

lemma PutUvarint_small: "x < 0x80 \<Longrightarrow> PutUvarint x = [ucast x]"
  by (subst PutUvarint.simps) (simp add: not_le [symmetric])

lemma ReadFull_exact: "ReadFull (b @ S) (length b) = ((b, None), S)"
  by (simp add: ReadFull_def)

lemma unat_of_nat_length: "length (b::byte list) \<le> maxAlloc \<Longrightarrow> unat (of_nat (length b) :: uint64) = length b"
  by (simp add: maxAlloc_def unat_of_nat)

lemma readString_putString:
  "length b \<le> maxAlloc \<Longrightarrow> readString (putString b @ S) = (Return b None, S)"
  by (simp add: readString_def putString_def unat_of_nat_length ReadFull_exact)

lemma bytes_Compare_eq: "bytes_Compare a b = 0 \<longleftrightarrow> a = b"
  by (induction a b rule: bytes_Compare.induct) auto

lemma field_eta: "\<lparr>kind = kind f, ptr = field.ptr f\<rparr> = (f::field)"
  by (cases f) simp

lemma readFieldlist_loop_put:
  "\<forall>f \<in> set fs. kind f \<noteq> fieldKindEol \<Longrightarrow>
   readFieldlist_loop acc (putFieldlist fs @ S) = (Return (Some (acc @ fs)) None, S)"
proof (induction fs arbitrary: acc)
  case Nil
  show ?case by (subst readFieldlist_loop.simps) (simp add: putFieldlist_def)
next
  case (Cons f fs)
  have "readFieldlist_loop acc (putFieldlist (f # fs) @ S)
        = readFieldlist_loop (acc @ [f]) (putFieldlist fs @ S)"
    using Cons.prems
    by (subst readFieldlist_loop.simps) (simp add: putFieldlist_def putField_def field_eta)
  with Cons show ?case by simp
qed

lemma sint_eq_uint: "uint (w::uint64) < 2 ^ 63 \<Longrightarrow> sint w = uint w"
proof -
  assume "uint w < 2 ^ 63"
  moreover have "- (2 ^ 63) \<le> uint w" by (rule order_trans [of _ 0]) simp_all
  ultimately have "signed_take_bit 63 (uint w) = uint w"
    by (simp add: signed_take_bit_int_eq_self)
  then show ?thesis by (simp add: sint_uint)
qed

lemma sint_Second: "sint Second = 1000000000"
  by (simp add: Second_def)

lemma started_div_unsigned: "started_div DivUint64 n = uint n div 1000000000"
proof -
  have "uint n div 1000000000 < 2 ^ 63"
    using uint_lt2p [of n] by simp
  moreover have "uint (n div Second) = uint n div 1000000000"
    by (simp add: Second_def uint_div)
  ultimately show ?thesis
    by (simp add: started_div_def sint_eq_uint)
qed

lemma started_mod_unsigned: "started_mod DivUint64 n = uint n mod 1000000000"
proof -
  have "uint n mod 1000000000 < 2 ^ 63"
    by (rule less_trans [of _ 1000000000]) simp_all
  moreover have "uint (n mod Second) = uint n mod 1000000000"
    by (simp add: Second_def uint_mod)
  ultimately show ?thesis
    by (simp add: started_mod_def sint_eq_uint)
qed

lemma quo_nonneg: "0 \<le> a \<Longrightarrow> 0 < b \<Longrightarrow> quo a b = a div b"
  by (cases "a = 0") (simp_all add: quo_def)

lemma rem_nonneg: "0 \<le> a \<Longrightarrow> 0 < b \<Longrightarrow> rem a b = a mod b"
  by (simp add: rem_def quo_nonneg minus_mult_div_eq_mod)

lemma started_div_signed:
  "uint n < 2 ^ 63 \<Longrightarrow> started_div DivDuration n = uint n div 1000000000"
  by (simp add: started_div_def sint_eq_uint sint_Second quo_nonneg)

lemma started_mod_signed:
  "uint n < 2 ^ 63 \<Longrightarrow> started_mod DivDuration n = uint n mod 1000000000"
  by (simp add: started_mod_def sint_eq_uint sint_Second rem_nonneg)

lemma started_div_eq:
  "uint n < 2 ^ 63 \<or> ty = DivUint64 \<Longrightarrow> started_div ty n = uint n div 1000000000"
  by (cases ty) (auto simp: started_div_unsigned started_div_signed)

lemma started_mod_eq:
  "uint n < 2 ^ 63 \<or> ty = DivUint64 \<Longrightarrow> started_mod ty n = uint n mod 1000000000"
  by (cases ty) (auto simp: started_mod_unsigned started_mod_signed)

lemma time_Unix_in_range:
  "time_Unix (uint (n::uint64) div 1000000000) (uint n mod 1000000000)
   = \<lparr>sec = uint n div 1000000000, nsec = uint n mod 1000000000\<rparr>"
  by (simp add: time_Unix_def)

lemma time_Unix_split:
  "uint n < 2 ^ 63 \<or> ty = DivUint64 \<Longrightarrow>
   time_Unix (started_div ty n) (started_mod ty n)
   = \<lparr>sec = uint n div 1000000000, nsec = uint n mod 1000000000\<rparr>"
  by (simp only: started_div_eq started_mod_eq time_Unix_in_range)


section \<open>Bytes after a successful read are left alone\<close>



lemma ReadFull_frame:
  "ReadFull E n = ((buf, None), R) \<Longrightarrow> ReadFull (E @ S) n = ((buf, None), R @ S)"
  by (auto simp: ReadFull_def split: if_splits)













section \<open>Errors of the reads reach the caller\<close>

lemma readObject_error_iff:
  "readObject r = (Return ov (Some e), r') \<longleftrightarrow>
   ov = None \<and> firstError reads_object r = Some (e, r')"
  by (auto simp: readObject_def reads_object_def
      split: prod.splits option.splits result.splits)

lemma readOtherRoot_error_iff:
  "readOtherRoot r = (Return ov (Some e), r') \<longleftrightarrow>
   ov = None \<and> firstError reads_root r = Some (e, r')"
  by (auto simp: readOtherRoot_def reads_root_def
      split: prod.splits option.splits result.splits)

lemma readType_error_iff:
  "readType r = (Return ov (Some e), r') \<longleftrightarrow>
   ov = None \<and> firstError reads_Type r = Some (e, r')"
  by (auto simp: readType_def reads_Type_def
      split: prod.splits option.splits result.splits)

lemma readGoroutine_error_iff:
  "readGoroutine ty r = (Return ov (Some e), r') \<longleftrightarrow>
   ov = None \<and> firstError reads_Goroutine r = Some (e, r')"
  by (auto simp: readGoroutine_def reads_Goroutine_def Let_def
      split: prod.splits option.splits result.splits)

lemma readStackFrame_error_iff:
  "readStackFrame r = (Return ov (Some e), r') \<longleftrightarrow>
   ov = None \<and> firstError reads_stackFrame r = Some (e, r')"
  by (auto simp: readStackFrame_def reads_stackFrame_def Let_def
      split: prod.splits option.splits result.splits)

lemma readFieldlist_loop_error_nil:
  "readFieldlist_loop acc r = (Return ofl (Some e), r') \<Longrightarrow> ofl = None"
proof (induction acc r rule: readFieldlist_loop.induct)
  case (1 acc r)
  show ?case
  proof (cases "\<exists>t r1 v r2. ReadUvarint r = ((t, None), r1) \<and> t \<noteq> fieldKindEol \<and>
                 ReadUvarint r1 = ((v, None), r2)")
    case True
    then obtain t r1 v r2 where c: "ReadUvarint r = ((t, None), r1)" "t \<noteq> fieldKindEol"
      "ReadUvarint r1 = ((v, None), r2)" by blast
    with "1.prems"
    have "readFieldlist_loop (acc @ [\<lparr>kind = t, ptr = v\<rparr>]) r2 = (Return ofl (Some e), r')"
      by (subst (asm) readFieldlist_loop.simps) simp
    with "1.IH" c show ?thesis by simp
  next
    case False
    with "1.prems" show ?thesis
      by (subst (asm) readFieldlist_loop.simps)
         (auto split: prod.split_asm option.split_asm if_split_asm)
  qed
qed

lemma readFieldlist_loop_kind_error:
  "ReadUvarint r = ((t, Some e), r') \<Longrightarrow>
   readFieldlist_loop acc r = (Return None (Some e), r')"
  by (subst readFieldlist_loop.simps) simp

lemma readFieldlist_loop_offset_error:
  "ReadUvarint r = ((t, None), r1) \<Longrightarrow> t \<noteq> fieldKindEol \<Longrightarrow>
   ReadUvarint r1 = ((v, Some e), r') \<Longrightarrow>
   readFieldlist_loop acc r = (Return None (Some e), r')"
  by (subst readFieldlist_loop.simps) simp

section \<open>Raw values and evaluation on explicit bytes\<close>

lemma rawUvarint_0:
  "rawUvarint 0 r = (case ReadUvarint r of ((x, Some err), r') \<Rightarrow> None | ((x, None), r') \<Rightarrow> Some x)"
  by (simp split: prod.splits option.splits)

lemma rawUvarint_Suc:
  "rawUvarint (Suc k) r =
     (case ReadUvarint r of ((x, Some err), r') \<Rightarrow> None | ((x, None), r') \<Rightarrow> rawUvarint k r')"
  by (simp split: prod.splits option.splits)

lemma rawUvarint_numeral:
  "rawUvarint (numeral k) r =
     (case ReadUvarint r of
        ((x, Some err), r') \<Rightarrow> None
      | ((x, None), r') \<Rightarrow> rawUvarint (pred_numeral k) r')"
  by (simp only: numeral_eq_Suc rawUvarint_Suc)

lemma rawUvarint_1:
  "rawUvarint 1 r =
     (case ReadUvarint r of ((x, Some err), r') \<Rightarrow> None | ((x, None), r') \<Rightarrow> rawUvarint 0 r')"
  using rawUvarint_Suc [of 0 r] by simp

declare rawUvarint.simps [simp del]

lemmas rawUvarint_eval = rawUvarint_0 rawUvarint_1 rawUvarint_Suc rawUvarint_numeral


text \<open>Rules that evaluate the decoders on explicit bytes.\<close>

lemmas eval_read = readString_def ReadUvarint_small ReadUvarint_Nil ReadFull_def maxAlloc_def
  Let_def rawUvarint_eval readFieldlist_def readFieldlist_loop.simps fieldKindEol_def elems_def

section \<open>The header check\<close>

text \<open>
  C1: a byte source with fewer than 16 bytes (the length of the magic header) must make
  \<open>readHeader\<close> fail with a truncation error. The code does not do this: when
  \<^verbatim>\<open>io.ReadFull\<close> fails, \<open>readHeader\<close> returns \<^verbatim>\<open>nil\<close>, so a truncated header is
  accepted. Evaluated on the first five bytes of the header and on the empty source,
  \<open>readHeader\<close> returns no error; and so it does on every source of at most 15 bytes
  (\<open>take 15 r\<close> for any \<open>r\<close>).
\<close>

theorem readHeader_truncated_returns_nil:
  "readHeader [0x67, 0x6f, 0x31, 0x2e, 0x34] = (None, []) \<and> readHeader [] = (None, []) \<and>
   readHeader (take 15 r) = (None, [])"
  by (simp add: readHeader_def ReadFull_def header_def)

text \<open>
  C6: when the first 16 bytes of the source are present and differ from the magic
  literal in at least one byte, \<open>readHeader\<close> fails with the bad-magic error
  (\<^verbatim>\<open>errors.New("invalid heapdump")\<close>), having consumed exactly these 16 bytes.
\<close>

theorem readHeader_bad_magic:
  assumes "length header \<le> length r" and "take (length header) r \<noteq> header"
  shows "readHeader r = (Some ErrInvalidHeapdump, drop (length header) r)"
proof -
  from assms(2) have "bytes_Compare header (take (length header) r) \<noteq> 0"
    by (auto simp: bytes_Compare_eq)
  with assms(1) show ?thesis
    by (simp add: readHeader_def ReadFull_def)
qed

theorem readHeader_bad_magic_witness:
  "length header \<le> length (header [4 := 0x35] @ [2]) \<and>
   take (length header) (header [4 := 0x35] @ [2]) \<noteq> header \<and>
   readHeader (header [4 := 0x35] @ [2]) = (Some ErrInvalidHeapdump, [2])"
  using readHeader_bad_magic [of "header [4 := 0x35] @ [2]"]
  by (simp add: header_def)

section \<open>Round trips\<close>

text \<open>
  C4: for every byte sequence \<open>b\<close>, the empty one included, decoding the uvarint length
  of \<open>b\<close> followed by the bytes of \<open>b\<close> with \<open>readString\<close> succeeds and yields \<open>b\<close>
  exactly; the bytes \<open>S\<close> that follow the payload are left in the source. A byte
  sequence of the program is a slice, so its length is within what can be allocated.
\<close>

theorem readString_roundtrip:
  "length b \<le> maxAlloc \<Longrightarrow> readString (putString b @ S) = (Return b None, S)"
  by (rule readString_putString)

theorem readString_roundtrip_witness:
  "length ([] :: byte list) \<le> maxAlloc \<and>
   readString (putString [] @ [7, 8]) = (Return [] None, [7, 8]) \<and>
   length [1, 2, 0x80 :: byte] \<le> maxAlloc \<and>
   readString (putString [1, 2, 0x80] @ [7]) = (Return [1, 2, 0x80] None, [7])"
  using readString_roundtrip [of "[]" "[7, 8]"] readString_roundtrip [of "[1, 2, 0x80]" "[7]"]
  by (simp add: maxAlloc_def)

text \<open>
  C3: for every finite sequence of (kind, offset) pairs whose kinds are all nonzero,
  the empty sequence included, decoding the pairs written as two uvarints each and
  followed by one End marker with \<open>readFieldlist\<close> succeeds and returns exactly that
  sequence in the same order; the End marker is consumed and not part of the result.
\<close>

theorem readFieldlist_roundtrip:
  "\<forall>f \<in> set fs. kind f \<noteq> fieldKindEol \<Longrightarrow>
   readFieldlist (putFieldlist fs @ S) = (Return (Some fs) None, S)"
  using readFieldlist_loop_put [of fs "[]" S] by (simp add: readFieldlist_def)

theorem readFieldlist_roundtrip_witness:
  "kind \<lparr>kind = 1, ptr = 0\<rparr> \<noteq> fieldKindEol \<and> kind \<lparr>kind = 300, ptr = 8\<rparr> \<noteq> fieldKindEol \<and>
   readFieldlist (putFieldlist [\<lparr>kind = 1, ptr = 0\<rparr>, \<lparr>kind = 300, ptr = 8\<rparr>] @ [9])
     = (Return (Some [\<lparr>kind = 1, ptr = 0\<rparr>, \<lparr>kind = 300, ptr = 8\<rparr>]) None, [9]) \<and>
   readFieldlist (putFieldlist [] @ [9]) = (Return (Some []) None, [9])"
  using readFieldlist_roundtrip [of "[\<lparr>kind = 1, ptr = 0\<rparr>, \<lparr>kind = 300, ptr = 8\<rparr>]" "[9]"]
    readFieldlist_roundtrip [of "[]" "[9]"]
  by (simp add: fieldKindEol_def)

text \<open>
  C8: on an input that consists of a length-prefixed byte string \<open>d\<close> followed by a
  uvarint \<open>a\<close>, \<open>readOtherRoot\<close> reads the description first and the address second and
  returns the root with description \<open>d\<close> and target \<open>a\<close>. The witness is the case of the
  description \<^verbatim>\<open>runtime.m0\<close> and the address \<open>0x1000\<close>, followed by the tag \<open>0\<close>.
\<close>

theorem readOtherRoot_roundtrip:
  "length d \<le> maxAlloc \<Longrightarrow>
   readOtherRoot (putString d @ PutUvarint a @ S)
     = (Return (Some \<lparr>descr = d, ptr = a\<rparr>) None, S)"
  by (simp add: readOtherRoot_def readString_putString)

theorem readOtherRoot_roundtrip_witness:
  "length runtime_m0 \<le> maxAlloc \<and>
   readOtherRoot (putString runtime_m0 @ PutUvarint 0x1000 @ [0])
     = (Return (Some \<lparr>descr = runtime_m0, ptr = 0x1000\<rparr>) None, [0])"
  using readOtherRoot_roundtrip [of runtime_m0 "0x1000" "[0]"]
  by (simp add: runtime_m0_def maxAlloc_def)

section \<open>The goroutine record\<close>

text \<open>
  C2: each of the two flags of a goroutine record (\<open>isSys\<close>, \<open>isBackground\<close>) must be
  true exactly when its raw uvarint is 1. The code compares with \<^verbatim>\<open>b != 1\<close>, so it
  stores the opposite. On a record whose two raw flags are 1 (all other raw values 0,
  empty wait reason) both stored flags are false; on a record whose raw flags are 0 and
  2 both stored flags are true.
\<close>

theorem readGoroutine_flags_inverted:
  "readGoroutine ty [0, 0, 0, 0, 0, 1, 1, 0, 0, 0, 0, 0, 0]
     = (Return (Some \<lparr>Goroutine.addr = 0, rframe = 0, id' = 0, stmt = 0, status = 0,
          isSys = False, isBackground = False, started = \<lparr>sec = 0, nsec = 0\<rparr>,
          waitReason = [], ctx = 0, MThread = 0, dfer = 0, pnic = 0\<rparr>) None, []) \<and>
   rawUvarint 5 [0, 0, 0, 0, 0, 1, 1, 0, 0, 0, 0, 0, 0] = Some 1 \<and>
   rawUvarint 6 [0, 0, 0, 0, 0, 1, 1, 0, 0, 0, 0, 0, 0] = Some 1 \<and>
   readGoroutine ty [0, 0, 0, 0, 0, 0, 2, 0, 0, 0, 0, 0, 0]
     = (Return (Some \<lparr>Goroutine.addr = 0, rframe = 0, id' = 0, stmt = 0, status = 0,
          isSys = True, isBackground = True, started = \<lparr>sec = 0, nsec = 0\<rparr>,
          waitReason = [], ctx = 0, MThread = 0, dfer = 0, pnic = 0\<rparr>) None, []) \<and>
   rawUvarint 5 [0, 0, 0, 0, 0, 0, 2, 0, 0, 0, 0, 0, 0] = Some 0 \<and>
   rawUvarint 6 [0, 0, 0, 0, 0, 0, 2, 0, 0, 0, 0, 0, 0] = Some 2"
  by (simp add: readGoroutine_def Goroutine_zero_def eval_read time_Unix_split)






section \<open>Errors and what follows a record\<close>

text \<open>
  C5: when a read of a record decoder fails, the decoder returns that error at once and
  no record. For \<open>readObject\<close>, \<open>readOtherRoot\<close>, \<open>readType\<close>, \<open>readGoroutine\<close> (under
  either typing of its start time) and \<open>readStackFrame\<close>: the decoder returns an error \<open>e\<close> and leaves the source at \<open>r'\<close>
  exactly when the first failing read of its sequence fails with \<open>e\<close> and leaves the
  source at \<open>r'\<close> (so nothing is read after the failure), and the pointer returned with
  an error is \<^verbatim>\<open>nil\<close>. For \<open>readFieldlist\<close>: the slice returned with an error is
  \<^verbatim>\<open>nil\<close>, and at every round of the loop, whatever has been collected, a failing read
  of the kind or of the offset ends the loop with that error and the source as the read
  left it.
\<close>

theorem decoders_return_read_error:
  "(readObject r = (Return ov1 (Some e), r') \<longleftrightarrow>
      ov1 = None \<and> firstError reads_object r = Some (e, r')) \<and>
   (readOtherRoot r = (Return ov2 (Some e), r') \<longleftrightarrow>
      ov2 = None \<and> firstError reads_root r = Some (e, r')) \<and>
   (readType r = (Return ov3 (Some e), r') \<longleftrightarrow>
      ov3 = None \<and> firstError reads_Type r = Some (e, r')) \<and>
   (readGoroutine ty r = (Return ov4 (Some e), r') \<longleftrightarrow>
      ov4 = None \<and> firstError reads_Goroutine r = Some (e, r')) \<and>
   (readStackFrame r = (Return ov5 (Some e), r') \<longleftrightarrow>
      ov5 = None \<and> firstError reads_stackFrame r = Some (e, r')) \<and>
   (readFieldlist r = (Return ofl (Some e), r') \<longrightarrow> ofl = None) \<and>
   (ReadUvarint r = ((t, Some e), r') \<longrightarrow>
      readFieldlist_loop acc r = (Return None (Some e), r')) \<and>
   (ReadUvarint r = ((t, None), r1) \<and> t \<noteq> fieldKindEol \<and> ReadUvarint r1 = ((v, Some e), r') \<longrightarrow>
      readFieldlist_loop acc r = (Return None (Some e), r'))"
proof -
  have "readFieldlist r = (Return ofl (Some e), r') \<longrightarrow> ofl = None"
    unfolding readFieldlist_def using readFieldlist_loop_error_nil by blast
  moreover have "ReadUvarint r = ((t, Some e), r') \<longrightarrow>
      readFieldlist_loop acc r = (Return None (Some e), r')"
    using readFieldlist_loop_kind_error by blast
  moreover have "ReadUvarint r = ((t, None), r1) \<and> t \<noteq> fieldKindEol \<and>
      ReadUvarint r1 = ((v, Some e), r') \<longrightarrow>
      readFieldlist_loop acc r = (Return None (Some e), r')"
    using readFieldlist_loop_offset_error by blast
  ultimately show ?thesis
    by (simp only: readObject_error_iff readOtherRoot_error_iff readType_error_iff
        readGoroutine_error_iff readStackFrame_error_iff simp_thms)
qed

theorem decoders_return_read_error_witness:
  "firstError reads_object [1, 2, 3] = Some (ErrUnexpectedEOF, []) \<and>
   readObject [1, 2, 3] = (Return None (Some ErrUnexpectedEOF), []) \<and>
   firstError reads_root [1, 0x41] = Some (EOF, []) \<and>
   readOtherRoot [1, 0x41] = (Return None (Some EOF), []) \<and>
   firstError reads_Type [1, 2, 0, 0x80] = Some (ErrUnexpectedEOF, []) \<and>
   readType [1, 2, 0, 0x80] = (Return None (Some ErrUnexpectedEOF), []) \<and>
   firstError reads_Goroutine [1, 2, 3, 4, 5] = Some (EOF, []) \<and>
   readGoroutine DivDuration [1, 2, 3, 4, 5] = (Return None (Some EOF), []) \<and>
   firstError reads_stackFrame [1, 2, 3, 0, 4, 5, 6, 1, 0x41, 1] = Some (EOF, []) \<and>
   readStackFrame [1, 2, 3, 0, 4, 5, 6, 1, 0x41, 1] = (Return None (Some EOF), []) \<and>
   readFieldlist [1] = (Return None (Some EOF), []) \<and>
   ReadUvarint [] = ((0, Some EOF), []) \<and>
   readFieldlist_loop [\<lparr>kind = 1, ptr = 2\<rparr>] [] = (Return None (Some EOF), []) \<and>
   ReadUvarint [1] = ((1, None), []) \<and> 1 \<noteq> fieldKindEol \<and>
   readFieldlist_loop [\<lparr>kind = 1, ptr = 2\<rparr>] [1] = (Return None (Some EOF), [])"
proof -
  have u: "ReadUvarint [0x80] = ((0, Some ErrUnexpectedEOF), [])"
    by (simp add: ReadUvarint_def ReadUvarint_loop.simps MaxVarintLen64_def)
  have f1: "firstError reads_object [1, 2, 3] = Some (ErrUnexpectedEOF, [])"
    by (simp add: reads_object_def eval_read)
  have f2: "firstError reads_root [1, 0x41] = Some (EOF, [])"
    by (simp add: reads_root_def eval_read)
  have f3: "firstError reads_Type [1, 2, 0, 0x80] = Some (ErrUnexpectedEOF, [])"
    by (simp add: reads_Type_def eval_read u)
  have f4: "firstError reads_Goroutine [1, 2, 3, 4, 5] = Some (EOF, [])"
    by (simp add: reads_Goroutine_def eval_read)
  have f5: "firstError reads_stackFrame [1, 2, 3, 0, 4, 5, 6, 1, 0x41, 1] = Some (EOF, [])"
    by (simp add: reads_stackFrame_def eval_read)
  have k: "ReadUvarint [] = ((0, Some EOF), [])" "ReadUvarint [1] = ((1, None), [])"
    "1 \<noteq> fieldKindEol"
    by (simp_all add: eval_read)
  have l: "readFieldlist [1] = (Return None (Some EOF), [])"
    by (simp add: eval_read)
  note a = decoders_return_read_error [where r = "[1, 2, 3]" and e = ErrUnexpectedEOF
      and r' = "[]" and ?ov1.0 = None]
  note b = decoders_return_read_error [where r = "[1, 0x41]" and e = EOF and r' = "[]"
      and ?ov2.0 = None]
  note c = decoders_return_read_error [where r = "[1, 2, 0, 0x80]" and e = ErrUnexpectedEOF
      and r' = "[]" and ?ov3.0 = None]
  note d = decoders_return_read_error [where r = "[1, 2, 3, 4, 5]" and e = EOF and r' = "[]"
      and ?ov4.0 = None and ty = DivDuration]
  note e = decoders_return_read_error [where r = "[1, 2, 3, 0, 4, 5, 6, 1, 0x41, 1]"
      and e = EOF and r' = "[]" and ?ov5.0 = None]
  note f = decoders_return_read_error [where r = "[]" and e = EOF and r' = "[]" and t = 0
      and acc = "[\<lparr>kind = 1, ptr = 2\<rparr>]"]
  note g = decoders_return_read_error [where r = "[1]" and e = EOF and r' = "[]" and t = 1
      and ?r1.0 = "[]" and v = 0 and acc = "[\<lparr>kind = 1, ptr = 2\<rparr>]" and ofl = None]
  from a f1 have "readObject [1, 2, 3] = (Return None (Some ErrUnexpectedEOF), [])" by simp
  moreover from b f2 have "readOtherRoot [1, 0x41] = (Return None (Some EOF), [])" by simp
  moreover from c f3
  have "readType [1, 2, 0, 0x80] = (Return None (Some ErrUnexpectedEOF), [])" by simp
  moreover from d f4 have "readGoroutine DivDuration [1, 2, 3, 4, 5] = (Return None (Some EOF), [])"
    by simp
  moreover from e f5
  have "readStackFrame [1, 2, 3, 0, 4, 5, 6, 1, 0x41, 1] = (Return None (Some EOF), [])"
    by simp
  moreover from f k
  have "readFieldlist_loop [\<lparr>kind = 1, ptr = 2\<rparr>] [] = (Return None (Some EOF), [])"
    by simp
  moreover from g k
  have "readFieldlist_loop [\<lparr>kind = 1, ptr = 2\<rparr>] [1] = (Return None (Some EOF), [])"
    by simp
  ultimately show ?thesis using f1 f2 f3 f4 f5 k l by simp
qed



end
